theory Spec2Isabelle
  imports Main "HOL-Library.Sublist"
begin

section \<open>The page the language-client bridge runs in\<close>

text \<open>
  \<open>LspClientCreator\<close> is glue between three Monaco editors, a JSON-RPC connection, two
  optional select boxes of the page and the shared store \<open>ContentManager\<close>. Its
  static fields and the collaborators it touches are gathered in one record, and every
  method and every callback of the class is a function from that record to an outcome.
\<close>

subsection \<open>Faults\<close>

text \<open>
  The class has no \<open>try\<close>: a JavaScript exception leaves the running callback at the
  statement that raised it. \<open>Threw e s\<close> keeps the state \<open>s\<close> reached at that statement,
  so that what was done before the fault stays visible.
\<close>

datatype error = TypeError | SyntaxError

datatype 'a outcome = Returned 'a | Threw error 'a

fun and_then :: "'a outcome \<Rightarrow> ('a \<Rightarrow> 'a outcome) \<Rightarrow> 'a outcome" where
  "and_then (Returned s) f = f s"
| "and_then (Threw e s) f = Threw e s"

fun state_of :: "'a outcome \<Rightarrow> 'a" where
  "state_of (Returned s) = s"
| "state_of (Threw e s) = s"

subsection \<open>Editors, select boxes, notifications\<close>

text \<open>
  An editor is known to the class through \<open>getModel()\<close> (a text model or \<open>null\<close>) and
  \<open>getValue()\<close>, which is the text of the model and the empty string without one.
\<close>

record text_model =
  uri :: string
  model_value :: string
  languageId :: string

type_synonym editor = "text_model option"

definition getModel :: "editor \<Rightarrow> text_model option" where
  "getModel ed = ed"

definition getValue :: "editor \<Rightarrow> string" where
  "getValue ed = (case ed of None \<Rightarrow> [] | Some m \<Rightarrow> model_value m)"

text \<open>
  A single-selection \<open>select\<close> element: the values of its options, the index of the
  selected one (\<open>-1\<close> when none is) and whether \<open>setClickHandler\<close> has installed its
  \<open>onchange\<close> callback.
\<close>

datatype onchange_handler = OnCultureChange | OnLanguageChange

record select_box =
  options :: "string list"
  selectedIndex :: int
  onchange :: "onchange_handler option"

text \<open>\<open>ContentEnum\<close>, the keys of the shared store.\<close>

datatype content_enum = Schema | Code | Culture | Language

text \<open>The outbound notifications with their payloads, and the inbound names of \<open>NotificationEnum\<close>.\<close>

datatype notification =
    SchemaChanged string string
  | CultureChanged string string
  | LanguageChanged string string

datatype notification_name = SemanticHighlighting | GeneratedCode | CommentKeywordChanged

text \<open>
  What the class does to its collaborators, in the order it does it: a notification sent on
  a connection, a write to the shared store, a listener registered on a connection, a
  listener registered on the workspace.
\<close>

datatype effect =
    Sent nat notification
  | SetValue content_enum string
  | OnNotification nat notification_name
  | OnDidChangeTextDocument

subsection \<open>Token classifiers and language configuration\<close>

datatype regexp = RegExp string string

datatype 'c tokens_provider = OvlTokenProvider "(regexp \<times> 'c) list"

record language_configuration =
  lineComment :: "string option"
  blockComment :: "(string \<times> string) option"
  brackets :: "(string \<times> string) list option"
  autoClosingPairs :: "(string \<times> string) list option"
  surroundingPairs :: "(string \<times> string) list option"
  wordPattern :: "regexp option"

subsection \<open>The state\<close>

record 'c page =
  ovEditor :: editor
  schemaEditor :: editor
  outputEditor :: editor
  currentConnection :: nat
  cultureSelectBox :: "select_box option"
  languageSelectBox :: "select_box option"
  content :: "content_enum \<Rightarrow> string"
  tokensProviders :: "string \<rightharpoonup> 'c tokens_provider"
  languageConfigurations :: "string \<rightharpoonup> language_configuration"
  effects :: "effect list"

text \<open>
  Modelled from the spec: \<open>ContentManager.setValue\<close> (imported from \<open>../ContentManager\<close>,
  a file the sources do not hold). \<open>ContentManager\<close> is the small shared key-value store
  with the keys \<open>Schema\<close>, \<open>Code\<close>, \<open>Culture\<close> and \<open>Language\<close>; \<open>setValue\<close> persists a
  value under a key. The write is also an entry of \<open>effects\<close>, so that writes can be
  counted.
\<close>

definition ContentManager_setValue :: "content_enum \<Rightarrow> string \<Rightarrow> 'c page \<Rightarrow> 'c page" where
  "ContentManager_setValue k v s =
     s\<lparr>content := (content s)(k := v), effects := effects s @ [SetValue k v]\<rparr>"

text \<open>
  Modelled from the spec: \<open>ContentManager.getValue\<close> (same file) reads the value stored
  under a key.
\<close>

definition ContentManager_getValue :: "content_enum \<Rightarrow> 'c page \<Rightarrow> string" where
  "ContentManager_getValue k s = content s k"

text \<open>\<open>this.currentConnection.sendNotification(name, payload)\<close>.\<close>

definition sendNotification :: "notification \<Rightarrow> 'c page \<Rightarrow> 'c page" where
  "sendNotification n s = s\<lparr>effects := effects s @ [Sent (currentConnection s) n]\<rparr>"

text \<open>\<open>this.currentConnection.onNotification(name, handler)\<close>.\<close>

definition onNotification :: "notification_name \<Rightarrow> 'c page \<Rightarrow> 'c page" where
  "onNotification n s = s\<lparr>effects := effects s @ [OnNotification (currentConnection s) n]\<rparr>"

section \<open>Semantic highlighting\<close>








definition addSemanticHighlightingNotificationListener :: "'c page \<Rightarrow> 'c page" where
  "addSemanticHighlightingNotificationListener s = onNotification SemanticHighlighting s"


section \<open>Generated code\<close>

text \<open>
  \<open>String.prototype.toLowerCase\<close> belongs to the JavaScript engine. On a text of ASCII
  characters it turns the letters \<open>A\<close> to \<open>Z\<close> into \<open>a\<close> to \<open>z\<close> and keeps every other
  character; on a text with a character outside ASCII it follows the engine's Unicode
  case table, which is the parameter \<open>unicode\<close>.
\<close>

definition char_toLowerCase :: "char \<Rightarrow> char" where
  "char_toLowerCase c =
     (if (65::nat) \<le> of_char c \<and> of_char c \<le> (90::nat)
      then char_of (of_char c + (32::nat)) else c)"

definition toLowerCase :: "(string \<Rightarrow> string) \<Rightarrow> string \<Rightarrow> string" where
  "toLowerCase unicode str =
     (if \<forall>c\<in>set str. of_char c < (128::nat) then map char_toLowerCase str else unicode str)"

record code_notification =
  language :: string
  implementation :: string

text \<open>
  Modelled from the spec: \<open>setValue\<close> of the text model (the editor library, not under
  the sources). The spec has the call replace the full text of the output surface with
  the given text.
\<close>

definition setValue :: "string \<Rightarrow> text_model \<Rightarrow> text_model" where
  "setValue v m = m\<lparr>model_value := v\<rparr>"

text \<open>
  Modelled from the spec: \<open>monaco.editor.setModelLanguage\<close> (the editor library, not
  under the sources). The spec has the call set the language-id of the output surface to
  the given id.
\<close>

definition setModelLanguage :: "text_model \<Rightarrow> string \<Rightarrow> text_model" where
  "setModelLanguage m lang = m\<lparr>languageId := lang\<rparr>"

text \<open>
  The callback of \<open>addGeneratedCodeNotificationListener\<close>: the language is lower-cased
  before the model of the output editor is looked at.
\<close>

definition generatedCode_handler ::
  "(string \<Rightarrow> string) \<Rightarrow> code_notification option \<Rightarrow> 'c page \<Rightarrow> 'c page outcome" where
  "generatedCode_handler unicode parsed s =
     (case parsed of
        None \<Rightarrow> Threw SyntaxError s
      | Some paramJson \<Rightarrow>
          (let lang = toLowerCase unicode (language paramJson);
               v = implementation paramJson in
           case getModel (outputEditor s) of
             None \<Rightarrow> Returned s
           | Some currentModel \<Rightarrow>
               Returned (s\<lparr>outputEditor :=
                 Some (setModelLanguage (setValue v currentModel) lang)\<rparr>)))"

definition addGeneratedCodeNotificationListener :: "'c page \<Rightarrow> 'c page" where
  "addGeneratedCodeNotificationListener s = onNotification GeneratedCode s"

section \<open>Outbound notifications\<close>

text \<open>
  Both senders read the URI of the primary document as
  \<open>this.ovEditor.getModel()!.uri.toString()\<close>: the \<open>!\<close> is erased by the compiler, so
  on an editor without a model the property access on \<open>null\<close> raises a \<open>TypeError\<close>.
\<close>

definition sendSchemaChangedNotification :: "'c page \<Rightarrow> 'c page outcome" where
  "sendSchemaChangedNotification s =
     (let schemaValue = getValue (schemaEditor s) in
      case getModel (ovEditor s) of
        None \<Rightarrow> Threw TypeError s
      | Some m \<Rightarrow> Returned (sendNotification (SchemaChanged schemaValue (uri m)) s))"

text \<open>
  The loop of \<open>sendLanguageConfiguration\<close> over the options of a select box: the first
  option whose value is the stored one becomes the selected option, and the loop breaks.
\<close>

fun first_index :: "string list \<Rightarrow> string \<Rightarrow> nat \<Rightarrow> nat option" where
  "first_index [] v index = None"
| "first_index (element # rest) v index =
     (if element = v then Some index else first_index rest v (Suc index))"

definition select_stored :: "select_box \<Rightarrow> string \<Rightarrow> select_box" where
  "select_stored box v =
     (case first_index (options box) v 0 of
        None \<Rightarrow> box
      | Some index \<Rightarrow> box\<lparr>selectedIndex := int index\<rparr>)"

text \<open>
  The two guarded blocks of \<open>sendLanguageConfiguration\<close>, one for each select box: a box
  that is not on the page is skipped; otherwise the stored value is read, reflected in the
  box and sent with the URI of the primary document.
\<close>

definition sendCulture :: "string \<Rightarrow> 'c page \<Rightarrow> 'c page" where
  "sendCulture textdocumentUri s =
     (case cultureSelectBox s of
        None \<Rightarrow> s
      | Some box \<Rightarrow>
          (let culture = ContentManager_getValue Culture s in
           sendNotification (CultureChanged culture textdocumentUri)
             (s\<lparr>cultureSelectBox := Some (select_stored box culture)\<rparr>)))"

definition sendLanguage :: "string \<Rightarrow> 'c page \<Rightarrow> 'c page" where
  "sendLanguage textdocumentUri s =
     (case languageSelectBox s of
        None \<Rightarrow> s
      | Some box \<Rightarrow>
          (let lang = ContentManager_getValue Language s in
           sendNotification (LanguageChanged lang textdocumentUri)
             (s\<lparr>languageSelectBox := Some (select_stored box lang)\<rparr>)))"

definition sendLanguageConfiguration :: "'c page \<Rightarrow> 'c page outcome" where
  "sendLanguageConfiguration s =
     (case getModel (ovEditor s) of
        None \<Rightarrow> Threw TypeError s
      | Some m \<Rightarrow> Returned (sendLanguage (uri m) (sendCulture (uri m) s)))"

section \<open>The document-change listener\<close>

record text_document =
  document_languageId :: string
  getText :: string

text \<open>The callback given to \<open>workspace.onDidChangeTextDocument\<close>.\<close>

definition didChangeTextDocument_handler :: "text_document \<Rightarrow> 'c page \<Rightarrow> 'c page outcome" where
  "didChangeTextDocument_handler textDocument s =
     (if document_languageId textDocument = ''yaml''
      then and_then (sendSchemaChangedNotification s)
             (\<lambda>s'. Returned (ContentManager_setValue Schema (getText textDocument) s'))
      else if document_languageId textDocument = ''ov''
      then Returned (ContentManager_setValue Code (getText textDocument) s)
      else Returned s)"

definition addDidChangeTextDocumentListener :: "'c page \<Rightarrow> 'c page" where
  "addDidChangeTextDocumentListener s = s\<lparr>effects := effects s @ [OnDidChangeTextDocument]\<rparr>"

section \<open>The comment keyword\<close>

text \<open>
  Modelled from the spec: the merge that \<open>monaco.languages.setLanguageConfiguration\<close>
  (the editor library, not under the sources) makes of a language's configuration and the
  object it is given. The spec has the parts that the object carries replaced and the
  other parts of the configuration untouched; a part the object does not carry is \<open>None\<close>.
\<close>

definition merge_configuration ::
  "language_configuration \<Rightarrow> language_configuration \<Rightarrow> language_configuration" where
  "merge_configuration old new =
     \<lparr>lineComment = (case lineComment new of None \<Rightarrow> lineComment old | Some v \<Rightarrow> Some v),
      blockComment = (case blockComment new of None \<Rightarrow> blockComment old | Some v \<Rightarrow> Some v),
      brackets = (case brackets new of None \<Rightarrow> brackets old | Some v \<Rightarrow> Some v),
      autoClosingPairs =
        (case autoClosingPairs new of None \<Rightarrow> autoClosingPairs old | Some v \<Rightarrow> Some v),
      surroundingPairs =
        (case surroundingPairs new of None \<Rightarrow> surroundingPairs old | Some v \<Rightarrow> Some v),
      wordPattern = (case wordPattern new of None \<Rightarrow> wordPattern old | Some v \<Rightarrow> Some v)\<rparr>"

text \<open>
  Modelled from the spec: \<open>monaco.languages.setLanguageConfiguration\<close> (the editor
  library, not under the sources) sets the merged configuration for the one language it
  names, and the given object itself for a language that had none.
\<close>

definition setLanguageConfiguration ::
  "string \<Rightarrow> language_configuration \<Rightarrow> 'c page \<Rightarrow> 'c page" where
  "setLanguageConfiguration lang conf s =
     s\<lparr>languageConfigurations := (languageConfigurations s)(lang \<mapsto>
         (case languageConfigurations s lang of
            None \<Rightarrow> conf
          | Some old \<Rightarrow> merge_configuration old conf))\<rparr>"

text \<open>
  The callback of \<open>addAliasesChangesListener\<close>: the object it passes carries
  \<open>comments.lineComment\<close> and nothing else.
\<close>

definition commentKeywordChanged_handler :: "string \<Rightarrow> 'c page \<Rightarrow> 'c page outcome" where
  "commentKeywordChanged_handler params s =
     Returned (setLanguageConfiguration ''ov''
       \<lparr>lineComment = Some params, blockComment = None, brackets = None,
        autoClosingPairs = None, surroundingPairs = None, wordPattern = None\<rparr> s)"

definition addAliasesChangesListener :: "'c page \<Rightarrow> 'c page" where
  "addAliasesChangesListener s = onNotification CommentKeywordChanged s"

section \<open>The select boxes\<close>

definition setClickHandler :: "'c page \<Rightarrow> 'c page" where
  "setClickHandler s =
     s\<lparr>cultureSelectBox :=
         map_option (\<lambda>box. box\<lparr>onchange := Some OnCultureChange\<rparr>) (cultureSelectBox s),
       languageSelectBox :=
         map_option (\<lambda>box. box\<lparr>onchange := Some OnLanguageChange\<rparr>) (languageSelectBox s)\<rparr>"

text \<open>
  \<open>box.options[box.selectedIndex].value\<close>: outside the options the index gives
  \<open>undefined\<close>, and reading \<open>value\<close> of it raises a \<open>TypeError\<close>.
\<close>

definition selected_value :: "select_box \<Rightarrow> string option" where
  "selected_value box =
     (if 0 \<le> selectedIndex box \<and> selectedIndex box < int (length (options box))
      then Some (options box ! nat (selectedIndex box)) else None)"

datatype dom_event = ChangeEvent

text \<open>
  The two \<open>onchange\<close> callbacks. Each closes over its own select element, here the
  argument \<open>box\<close>; \<open>e\<close> is the event, \<open>None\<close> for \<open>null\<close>.
\<close>

definition cultureSelectBox_onchange ::
  "select_box \<Rightarrow> dom_event option \<Rightarrow> 'c page \<Rightarrow> 'c page outcome" where
  "cultureSelectBox_onchange box e s =
     (case e of
        None \<Rightarrow> Returned s
      | Some _ \<Rightarrow>
          (case selected_value box of
             None \<Rightarrow> Threw TypeError s
           | Some selectedCulture \<Rightarrow>
               (case getModel (ovEditor s) of
                  None \<Rightarrow> Threw TypeError s
                | Some m \<Rightarrow>
                    Returned (sendNotification (CultureChanged selectedCulture (uri m))
                      (ContentManager_setValue Culture selectedCulture s)))))"

definition languageSelectBox_onchange ::
  "select_box \<Rightarrow> dom_event option \<Rightarrow> 'c page \<Rightarrow> 'c page outcome" where
  "languageSelectBox_onchange box e s =
     (case e of
        None \<Rightarrow> Returned s
      | Some _ \<Rightarrow>
          (case selected_value box of
             None \<Rightarrow> Threw TypeError s
           | Some selectedLanguage \<Rightarrow>
               (case getModel (ovEditor s) of
                  None \<Rightarrow> Threw TypeError s
                | Some m \<Rightarrow>
                    Returned (sendNotification (LanguageChanged selectedLanguage (uri m))
                      (ContentManager_setValue Language selectedLanguage s)))))"

section \<open>The connection provider\<close>

text \<open>
  \<open>connectionProvider.get\<close> of \<open>createLanguageClient\<close>: \<open>c\<close> names the connection that
  \<open>createConnection\<close> has just made. A fault of a sender leaves the callback before the
  statements after it.
\<close>

definition connectionProvider_get :: "nat \<Rightarrow> 'c page \<Rightarrow> 'c page outcome" where
  "connectionProvider_get c s =
     and_then (sendSchemaChangedNotification (s\<lparr>currentConnection := c\<rparr>)) (\<lambda>s1.
     and_then (sendLanguageConfiguration s1) (\<lambda>s2.
       Returned (setClickHandler
         (addAliasesChangesListener
           (addDidChangeTextDocumentListener
             (addGeneratedCodeNotificationListener
               (addSemanticHighlightingNotificationListener s2)))))))"

section \<open>The transport URL\<close>

record location =
  protocol :: string
  pathname :: string

text \<open>
  \<open>const PORT = process.env.PORT || 3010\<close>: an unset or empty variable is falsy, and the
  template literal prints the number as \<open>3010\<close>.
\<close>

definition PORT :: "string option \<Rightarrow> string" where
  "PORT env_PORT =
     (case env_PORT of None \<Rightarrow> ''3010'' | Some p \<Rightarrow> (if p = [] then ''3010'' else p))"

text \<open>
  Modelled from the spec: the collapse of duplicate slashes that \<open>normalizeUrl\<close> (the
  package \<open>normalize-url\<close>, not under the sources) applies: every run of slashes becomes
  one slash.
\<close>

fun collapse_slashes :: "string \<Rightarrow> string" where
  "collapse_slashes (c # d # cs) =
     (if c = CHR ''/'' \<and> d = CHR ''/'' then collapse_slashes (d # cs)
      else c # collapse_slashes (d # cs))"
| "collapse_slashes cs = cs"

text \<open>
  Modelled from the spec: the URL keeps its form \<open>scheme://host:port/path\<close>; the text
  before the first \<open>://\<close> is the scheme and the text after it the rest.
\<close>

fun split_scheme :: "string \<Rightarrow> (string \<times> string) option" where
  "split_scheme [] = None"
| "split_scheme (c # cs) =
     (if c = CHR '':'' \<and> take 2 cs = ''//'' then Some ([], drop 2 cs)
      else map_option (\<lambda>(scheme, rest). (c # scheme, rest)) (split_scheme cs))"

text \<open>
  Modelled from the spec: \<open>normalizeUrl\<close> (the package \<open>normalize-url\<close>, not under the
  sources). The spec has the transport URL normalized with duplicate slashes collapsed:
  the two slashes after the scheme stay, and the rest is collapsed.
\<close>

definition normalizeUrl :: "string \<Rightarrow> string" where
  "normalizeUrl url =
     (case split_scheme url of
        None \<Rightarrow> collapse_slashes url
      | Some (scheme, rest) \<Rightarrow> scheme @ ''://'' @ collapse_slashes rest)"

definition createUrl :: "string option \<Rightarrow> location \<Rightarrow> string \<Rightarrow> string" where
  "createUrl env_PORT loc path =
     (let scheme = (if protocol loc = ''https:'' then ''wss'' else ''ws'') in
      normalizeUrl (scheme @ ''://localhost:'' @ PORT env_PORT @ pathname loc @ path))"

text \<open>Two slashes in a row somewhere in a text.\<close>

fun has_duplicate_slash :: "string \<Rightarrow> bool" where
  "has_duplicate_slash (c # d # cs) =
     ((c = CHR ''/'' \<and> d = CHR ''/'') \<or> has_duplicate_slash (d # cs))"
| "has_duplicate_slash cs = False"

section \<open>A concrete page\<close>

text \<open>
  A page with all three editors holding a model and both select boxes present, and
  variants of it: the primary editor detached from its model (\<open>getModel()\<close> is \<open>null\<close>),
  the output editor detached from its model, no select box on the page, and language
  configurations registered for \<open>ov\<close> and \<open>yaml\<close>.
\<close>

definition example_page :: "nat page" where
  "example_page =
     \<lparr>ovEditor =
        Some \<lparr>uri = ''inmemory://model/1'', model_value = ''IF a THEN b'', languageId = ''ov''\<rparr>,
      schemaEditor =
        Some \<lparr>uri = ''inmemory://model/2'', model_value = ''a: 1'', languageId = ''yaml''\<rparr>,
      outputEditor =
        Some \<lparr>uri = ''inmemory://model/3'', model_value = [], languageId = ''java''\<rparr>,
      currentConnection = 1,
      cultureSelectBox = Some \<lparr>options = [''de'', ''en''], selectedIndex = 0, onchange = None\<rparr>,
      languageSelectBox =
        Some \<lparr>options = [''Java'', ''Node''], selectedIndex = 0, onchange = None\<rparr>,
      content = (\<lambda>k. (case k of Culture \<Rightarrow> ''en'' | Language \<Rightarrow> ''Java'' | _ \<Rightarrow> [])),
      tokensProviders = Map.empty,
      languageConfigurations = Map.empty,
      effects = []\<rparr>"

definition page_without_model :: "nat page" where
  "page_without_model = example_page\<lparr>ovEditor := None\<rparr>"

definition page_without_output_model :: "nat page" where
  "page_without_output_model = example_page\<lparr>outputEditor := None\<rparr>"

definition page_without_select_boxes :: "nat page" where
  "page_without_select_boxes = example_page\<lparr>cultureSelectBox := None, languageSelectBox := None\<rparr>"

definition page_with_configuration :: "nat page" where
  "page_with_configuration =
     example_page\<lparr>languageConfigurations :=
       [''ov'' \<mapsto>
          \<lparr>lineComment = Some ''COMMENT'', blockComment = Some (''/*'', ''*/''),
           brackets = Some [(''('', '')'')], autoClosingPairs = Some [(''('', '')'')],
           surroundingPairs = None, wordPattern = None\<rparr>,
        ''yaml'' \<mapsto>
          \<lparr>lineComment = Some ''#'', blockComment = None, brackets = None,
           autoClosingPairs = None, surroundingPairs = None, wordPattern = None\<rparr>]\<rparr>"

section \<open>Properties\<close>

subsection \<open>Semantic highlighting\<close>






subsection \<open>Generated code\<close>

lemma of_char_toLowerCase:
  "(of_char (char_toLowerCase c) :: nat) =
     (if 65 \<le> (of_char c :: nat) \<and> (of_char c :: nat) \<le> 90 then of_char c + 32 else of_char c)"
  by (simp add: char_toLowerCase_def)

lemma toLowerCase_ascii:
  "\<forall>c\<in>set str. of_char c < (128::nat) \<Longrightarrow> toLowerCase unicode str = map char_toLowerCase str"
  by (simp add: toLowerCase_def)

lemma toLowerCase_Java: "toLowerCase unicode ''Java'' = ''java''"
  by (simp add: toLowerCase_def char_toLowerCase_def) code_simp

text \<open>
  Claim C3. For every generated-code notification that decodes to a language and an
  implementation: when the output editor has a model, the text of the model becomes
  exactly the implementation and its language-id the lower-cased language; when the
  output editor has no model, the state does not change. Lower-cased means, for a
  language of ASCII characters, that every letter \<open>A\<close> to \<open>Z\<close> has become the letter
  \<open>a\<close> to \<open>z\<close> at its place and every other character is kept, as \<open>Java\<close> becomes
  \<open>java\<close>; for any other language it is what the engine's case table gives.
\<close>

theorem generatedCode_replaces_output:
  "(case outputEditor s of
      None \<Rightarrow>
        generatedCode_handler unicode (Some \<lparr>language = l, implementation = i\<rparr>) s = Returned s
    | Some m \<Rightarrow>
        generatedCode_handler unicode (Some \<lparr>language = l, implementation = i\<rparr>) s =
          Returned (s\<lparr>outputEditor :=
            Some (m\<lparr>model_value := i, languageId := toLowerCase unicode l\<rparr>)\<rparr>))
   \<and> ((\<forall>c\<in>set l. of_char c < (128::nat)) \<longrightarrow>
        length (toLowerCase unicode l) = length l
        \<and> (\<forall>k<length l. (of_char (toLowerCase unicode l ! k) :: nat) =
             (if 65 \<le> (of_char (l ! k) :: nat) \<and> (of_char (l ! k) :: nat) \<le> 90
              then of_char (l ! k) + 32 else of_char (l ! k))))
   \<and> ((\<exists>c\<in>set l. (128::nat) \<le> of_char c) \<longrightarrow> toLowerCase unicode l = unicode l)
   \<and> toLowerCase unicode ''Java'' = ''java''"
proof (intro conjI impI)
  show "case outputEditor s of
      None \<Rightarrow>
        generatedCode_handler unicode (Some \<lparr>language = l, implementation = i\<rparr>) s = Returned s
    | Some m \<Rightarrow>
        generatedCode_handler unicode (Some \<lparr>language = l, implementation = i\<rparr>) s =
          Returned (s\<lparr>outputEditor :=
            Some (m\<lparr>model_value := i, languageId := toLowerCase unicode l\<rparr>)\<rparr>)"
    by (simp add: generatedCode_handler_def getModel_def setValue_def setModelLanguage_def
        split: option.splits)
next
  assume ascii: "\<forall>c\<in>set l. of_char c < (128::nat)"
  then show "length (toLowerCase unicode l) = length l"
    by (simp add: toLowerCase_ascii)
  show "\<forall>k<length l. (of_char (toLowerCase unicode l ! k) :: nat) =
             (if 65 \<le> (of_char (l ! k) :: nat) \<and> (of_char (l ! k) :: nat) \<le> 90
              then of_char (l ! k) + 32 else of_char (l ! k))"
    using ascii by (simp add: toLowerCase_ascii of_char_toLowerCase)
next
  assume "\<exists>c\<in>set l. (128::nat) \<le> of_char c"
  then show "toLowerCase unicode l = unicode l"
    by (auto simp: toLowerCase_def)
next
  show "toLowerCase unicode ''Java'' = ''java''"
    by (rule toLowerCase_Java)
qed

theorem generatedCode_replaces_output_witness:
  "outputEditor (state_of (generatedCode_handler (\<lambda>str. str)
       (Some \<lparr>language = ''Java'', implementation = ''class X{}''\<rparr>) example_page))
     = Some \<lparr>uri = ''inmemory://model/3'', model_value = ''class X{}'', languageId = ''java''\<rparr>
   \<and> generatedCode_handler (\<lambda>str. str)
       (Some \<lparr>language = ''Java'', implementation = ''class X{}''\<rparr>) page_without_output_model
     = Returned page_without_output_model"
  using generatedCode_replaces_output
      [where s = example_page and unicode = "\<lambda>str. str" and l = "''Java''"
        and i = "''class X{}''"]
    generatedCode_replaces_output
      [where s = page_without_output_model and unicode = "\<lambda>str. str" and l = "''Java''"
        and i = "''class X{}''"]
  by (simp add: example_page_def page_without_output_model_def)

subsection \<open>The transport URL\<close>

lemma collapse_head: "\<exists>ys. collapse_slashes (d # cs) = d # ys"
  by (induction cs arbitrary: d) auto

lemma collapse_no_duplicate: "\<not> has_duplicate_slash (collapse_slashes cs)"
proof (induction cs rule: collapse_slashes.induct)
  case (1 c d cs)
  obtain ys where ys: "collapse_slashes (d # cs) = d # ys"
    using collapse_head by blast
  with 1 show ?case by auto
qed simp_all

lemma collapse_nonslash: "CHR ''/'' \<noteq> c \<Longrightarrow> collapse_slashes (c # cs) = c # collapse_slashes cs"
  by (cases cs) simp_all

lemma collapse_append_nonslash:
  "CHR ''/'' \<notin> set xs \<Longrightarrow> collapse_slashes (xs @ ys) = xs @ collapse_slashes ys"
  by (induction xs) (simp_all add: collapse_nonslash)

lemma collapse_suffix:
  "suffix ''/ovLanguage'' (collapse_slashes (xs @ ''/ovLanguage''))"
proof (induction xs rule: collapse_slashes.induct)
  case (1 c d cs)
  then show ?case by (auto simp: suffix_ConsI)
qed (auto simp: suffix_def)

lemma collapse_localhost:
  "collapse_slashes (''localhost:'' @ rest) = ''localhost:'' @ collapse_slashes rest"
  by (rule collapse_append_nonslash) simp

lemma normalizeUrl_ws:
  "normalizeUrl (''ws://localhost:'' @ rest) = ''ws://localhost:'' @ collapse_slashes rest"
  using collapse_localhost [of rest] by (simp add: normalizeUrl_def)

lemma normalizeUrl_wss:
  "normalizeUrl (''wss://localhost:'' @ rest) = ''wss://localhost:'' @ collapse_slashes rest"
  using collapse_localhost [of rest] by (simp add: normalizeUrl_def)

lemma createUrl_eq:
  "createUrl env_PORT loc path =
     (if protocol loc = ''https:'' then ''wss'' else ''ws'') @ ''://localhost:'' @
       collapse_slashes (PORT env_PORT @ pathname loc @ path)"
  using normalizeUrl_ws [of "PORT env_PORT @ pathname loc @ path"]
    normalizeUrl_wss [of "PORT env_PORT @ pathname loc @ path"]
  by (simp add: createUrl_def)

lemma suffix_ovLanguage:
  "suffix ''/ovLanguage'' (createUrl env_PORT loc ''/ovLanguage'')"
proof -
  have "suffix ''/ovLanguage'' (collapse_slashes ((PORT env_PORT @ pathname loc) @ ''/ovLanguage''))"
    by (rule collapse_suffix)
  then have "suffix ''/ovLanguage''
      (((if protocol loc = ''https:'' then ''wss'' else ''ws'') @ ''://localhost:'') @
        collapse_slashes ((PORT env_PORT @ pathname loc) @ ''/ovLanguage''))"
    by (rule suffix_appendI)
  then show ?thesis by (simp add: createUrl_eq)
qed

lemma no_dup_localhost:
  "\<not> has_duplicate_slash (''localhost:'' @ collapse_slashes rest)"
  using collapse_no_duplicate [of "''localhost:'' @ rest"] collapse_localhost [of rest] by simp

text \<open>
  Claim C4. For every page location and every value of the \<open>PORT\<close> variable, the URL
  that \<open>createUrl\<close> builds for the service path \<open>/ovLanguage\<close> has the scheme \<open>wss\<close>
  exactly when the page protocol is \<open>https:\<close> and the scheme \<open>ws\<close> otherwise, ends with
  \<open>/ovLanguage\<close>, which follows the page path, has no two slashes in a row after the
  scheme separator, and names the port \<open>3010\<close> when the variable is unset or empty and
  the variable's value otherwise.
\<close>

theorem createUrl_transport:
  "createUrl env_PORT loc ''/ovLanguage'' =
     (if protocol loc = ''https:'' then ''wss'' else ''ws'') @ ''://'' @ ''localhost:'' @
       collapse_slashes (PORT env_PORT @ pathname loc @ ''/ovLanguage'')
   \<and> (prefix ''wss://'' (createUrl env_PORT loc ''/ovLanguage'') \<longleftrightarrow> protocol loc = ''https:'')
   \<and> (protocol loc \<noteq> ''https:'' \<longrightarrow> prefix ''ws://'' (createUrl env_PORT loc ''/ovLanguage''))
   \<and> suffix ''/ovLanguage'' (createUrl env_PORT loc ''/ovLanguage'')
   \<and> \<not> has_duplicate_slash
        (''localhost:'' @ collapse_slashes (PORT env_PORT @ pathname loc @ ''/ovLanguage''))
   \<and> (CHR ''/'' \<notin> set (PORT env_PORT) \<longrightarrow>
        createUrl env_PORT loc ''/ovLanguage'' =
          (if protocol loc = ''https:'' then ''wss'' else ''ws'') @ ''://localhost:'' @
            PORT env_PORT @ collapse_slashes (pathname loc @ ''/ovLanguage''))
   \<and> PORT None = ''3010'' \<and> PORT (Some []) = ''3010''
   \<and> (p \<noteq> [] \<longrightarrow> PORT (Some p) = p)"
proof -
  have eq: "createUrl env_PORT loc ''/ovLanguage'' =
     (if protocol loc = ''https:'' then ''wss'' else ''ws'') @ ''://'' @ ''localhost:'' @
       collapse_slashes (PORT env_PORT @ pathname loc @ ''/ovLanguage'')"
    by (simp add: createUrl_eq)
  have wss: "prefix ''wss://'' (createUrl env_PORT loc ''/ovLanguage'') \<longleftrightarrow> protocol loc = ''https:''"
    by (simp add: createUrl_eq)
  have ws: "protocol loc \<noteq> ''https:'' \<longrightarrow> prefix ''ws://'' (createUrl env_PORT loc ''/ovLanguage'')"
    by (simp add: createUrl_eq)
  have port: "CHR ''/'' \<notin> set (PORT env_PORT) \<longrightarrow>
        createUrl env_PORT loc ''/ovLanguage'' =
          (if protocol loc = ''https:'' then ''wss'' else ''ws'') @ ''://localhost:'' @
            PORT env_PORT @ collapse_slashes (pathname loc @ ''/ovLanguage'')"
    by (simp add: createUrl_eq collapse_append_nonslash)
  have dflt: "PORT None = ''3010'' \<and> PORT (Some []) = ''3010'' \<and> (p \<noteq> [] \<longrightarrow> PORT (Some p) = p)"
    by (simp add: PORT_def)
  from eq wss ws suffix_ovLanguage no_dup_localhost port dflt show ?thesis by blast
qed

theorem createUrl_transport_witness:
  "createUrl None \<lparr>protocol = ''https:'', pathname = ''/''\<rparr> ''/ovLanguage''
     = ''wss://localhost:3010/ovLanguage''
   \<and> createUrl (Some ''8080'') \<lparr>protocol = ''http:'', pathname = ''/editor/''\<rparr> ''/ovLanguage''
     = ''ws://localhost:8080/editor/ovLanguage''"
  using createUrl_transport [of None "\<lparr>protocol = ''https:'', pathname = ''/''\<rparr>" "''8080''"]
    createUrl_transport [of "Some ''8080''" "\<lparr>protocol = ''http:'', pathname = ''/editor/''\<rparr>" "''8080''"]
  by (simp add: PORT_def)

subsection \<open>The schema-state send\<close>

lemma sendSchemaChangedNotification_Some:
  "ovEditor s = Some m \<Longrightarrow>
   sendSchemaChangedNotification s =
     Returned (s\<lparr>effects := effects s @
       [Sent (currentConnection s) (SchemaChanged (getValue (schemaEditor s)) (uri m))]\<rparr>)"
  by (simp add: sendSchemaChangedNotification_def getModel_def sendNotification_def)

lemma sendSchemaChangedNotification_None:
  "ovEditor s = None \<Longrightarrow> sendSchemaChangedNotification s = Threw TypeError s"
  by (simp add: sendSchemaChangedNotification_def getModel_def)

text \<open>
  Claim C5, amended. Every invocation of the schema-state send made while the primary
  editor has a model sends one schema-changed notification whose payload is exactly the
  schema editor's current full text and the primary document's URI, whatever was sent or
  written before (\<open>history\<close>): nothing is compared with or taken from earlier sends.
\<close>

theorem sendSchemaChangedNotification_payload:
  "ovEditor s = Some m \<Longrightarrow>
   sendSchemaChangedNotification (s\<lparr>effects := history\<rparr>) =
     Returned (s\<lparr>effects := history @
       [Sent (currentConnection s) (SchemaChanged (getValue (schemaEditor s)) (uri m))]\<rparr>)"
  by (simp add: sendSchemaChangedNotification_Some)

theorem sendSchemaChangedNotification_payload_witness:
  "sendSchemaChangedNotification
     (example_page\<lparr>effects := [Sent 1 (SchemaChanged ''a: 0'' ''inmemory://model/1'')]\<rparr>) =
   Returned (example_page\<lparr>effects :=
     [Sent 1 (SchemaChanged ''a: 0'' ''inmemory://model/1''),
      Sent 1 (SchemaChanged ''a: 1'' ''inmemory://model/1'')]\<rparr>)"
  using sendSchemaChangedNotification_payload [of example_page
      "\<lparr>uri = ''inmemory://model/1'', model_value = ''IF a THEN b'', languageId = ''ov''\<rparr>"
      "[Sent 1 (SchemaChanged ''a: 0'' ''inmemory://model/1'')]"]
  by (simp add: example_page_def getValue_def)

text \<open>
  As first stated, for every invocation, the claim fails: on the page whose primary editor
  has no model the send raises a \<open>TypeError\<close> and no notification is produced.
\<close>

theorem sendSchemaChangedNotification_without_model:
  "sendSchemaChangedNotification page_without_model = Threw TypeError page_without_model
   \<and> effects (state_of (sendSchemaChangedNotification page_without_model)) = []"
  by (simp add: sendSchemaChangedNotification_None page_without_model_def example_page_def)

subsection \<open>The document-change listener\<close>

text \<open>
  Claim C1, amended. For every document-change event given to the workspace listener: if
  the language-id of the changed document is \<open>yaml\<close> and the primary editor has a model,
  exactly one schema-changed notification is sent and exactly one write to the shared
  store occurs, under the key \<open>Schema\<close> and with the document's new text; if the
  language-id is \<open>ov\<close>, no notification is sent and exactly one write occurs, under the
  key \<open>Code\<close>; for any other language-id nothing happens.
\<close>

theorem didChangeTextDocument_dispatch:
  "(document_languageId d = ''yaml'' \<and> ovEditor s = Some m \<longrightarrow>
      didChangeTextDocument_handler d s =
        Returned (s\<lparr>content := (content s)(Schema := getText d),
          effects := effects s @
            [Sent (currentConnection s) (SchemaChanged (getValue (schemaEditor s)) (uri m)),
             SetValue Schema (getText d)]\<rparr>))
   \<and> (document_languageId d = ''ov'' \<longrightarrow>
      didChangeTextDocument_handler d s =
        Returned (s\<lparr>content := (content s)(Code := getText d),
          effects := effects s @ [SetValue Code (getText d)]\<rparr>))
   \<and> (document_languageId d \<noteq> ''yaml'' \<and> document_languageId d \<noteq> ''ov'' \<longrightarrow>
      didChangeTextDocument_handler d s = Returned s)"
  by (simp add: didChangeTextDocument_handler_def sendSchemaChangedNotification_Some
      ContentManager_setValue_def)

theorem didChangeTextDocument_dispatch_witness:
  "didChangeTextDocument_handler \<lparr>document_languageId = ''yaml'', getText = ''a: 2''\<rparr> example_page =
     Returned (example_page\<lparr>content := (content example_page)(Schema := ''a: 2''),
       effects := [Sent 1 (SchemaChanged ''a: 1'' ''inmemory://model/1''), SetValue Schema ''a: 2'']\<rparr>)
   \<and> didChangeTextDocument_handler \<lparr>document_languageId = ''ov'', getText = ''IF c''\<rparr> example_page =
     Returned (example_page\<lparr>content := (content example_page)(Code := ''IF c''),
       effects := [SetValue Code ''IF c'']\<rparr>)
   \<and> didChangeTextDocument_handler \<lparr>document_languageId = ''java'', getText = ''class X{}''\<rparr> example_page =
     Returned example_page"
  using didChangeTextDocument_dispatch
      [of "\<lparr>document_languageId = ''yaml'', getText = ''a: 2''\<rparr>" example_page
        "\<lparr>uri = ''inmemory://model/1'', model_value = ''IF a THEN b'', languageId = ''ov''\<rparr>"]
    didChangeTextDocument_dispatch
      [of "\<lparr>document_languageId = ''ov'', getText = ''IF c''\<rparr>" example_page
        "\<lparr>uri = ''inmemory://model/1'', model_value = ''IF a THEN b'', languageId = ''ov''\<rparr>"]
    didChangeTextDocument_dispatch
      [of "\<lparr>document_languageId = ''java'', getText = ''class X{}''\<rparr>" example_page
        "\<lparr>uri = ''inmemory://model/1'', model_value = ''IF a THEN b'', languageId = ''ov''\<rparr>"]
  by (simp add: example_page_def getValue_def)

text \<open>
  As first stated, for every event, the claim fails: a change of a \<open>yaml\<close> document on
  the page whose primary editor has no model raises a \<open>TypeError\<close> in the send, before
  the write; nothing is sent and the store keeps its old value under \<open>Schema\<close>.
\<close>

theorem didChangeTextDocument_yaml_without_model:
  "didChangeTextDocument_handler \<lparr>document_languageId = ''yaml'', getText = ''a: 2''\<rparr>
       page_without_model = Threw TypeError page_without_model
   \<and> effects (state_of (didChangeTextDocument_handler
        \<lparr>document_languageId = ''yaml'', getText = ''a: 2''\<rparr> page_without_model)) = []
   \<and> content (state_of (didChangeTextDocument_handler
        \<lparr>document_languageId = ''yaml'', getText = ''a: 2''\<rparr> page_without_model)) Schema = []"
  by (simp add: didChangeTextDocument_handler_def sendSchemaChangedNotification_None
      page_without_model_def example_page_def)

subsection \<open>The select boxes\<close>

text \<open>
  Claim C6, amended. For every change event fired on the culture select box while the
  primary editor has a model, exactly one write stores the value of the box's selected
  option under the key \<open>Culture\<close> and exactly one culture-changed notification carries
  that same value, whatever was sent or written before; the same holds of the language
  select box, the key \<open>Language\<close> and the language-changed notification.
\<close>

theorem onchange_stores_and_sends:
  "ovEditor s = Some m \<Longrightarrow> 0 \<le> selectedIndex box \<Longrightarrow>
   selectedIndex box < int (length (options box)) \<Longrightarrow>
   cultureSelectBox_onchange box (Some e) s =
     Returned (s\<lparr>content := (content s)(Culture := options box ! nat (selectedIndex box)),
       effects := effects s @
         [SetValue Culture (options box ! nat (selectedIndex box)),
          Sent (currentConnection s)
            (CultureChanged (options box ! nat (selectedIndex box)) (uri m))]\<rparr>)
   \<and> languageSelectBox_onchange box (Some e) s =
     Returned (s\<lparr>content := (content s)(Language := options box ! nat (selectedIndex box)),
       effects := effects s @
         [SetValue Language (options box ! nat (selectedIndex box)),
          Sent (currentConnection s)
            (LanguageChanged (options box ! nat (selectedIndex box)) (uri m))]\<rparr>)"
  by (simp add: cultureSelectBox_onchange_def languageSelectBox_onchange_def selected_value_def
      getModel_def ContentManager_setValue_def sendNotification_def)

theorem onchange_stores_and_sends_witness:
  "cultureSelectBox_onchange
      \<lparr>options = [''de'', ''en''], selectedIndex = 0, onchange = Some OnCultureChange\<rparr>
      (Some ChangeEvent) example_page =
     Returned (example_page\<lparr>content := (content example_page)(Culture := ''de''),
       effects := [SetValue Culture ''de'', Sent 1 (CultureChanged ''de'' ''inmemory://model/1'')]\<rparr>)
   \<and> languageSelectBox_onchange
      \<lparr>options = [''de'', ''en''], selectedIndex = 0, onchange = Some OnCultureChange\<rparr>
      (Some ChangeEvent) example_page =
     Returned (example_page\<lparr>content := (content example_page)(Language := ''de''),
       effects := [SetValue Language ''de'', Sent 1 (LanguageChanged ''de'' ''inmemory://model/1'')]\<rparr>)"
  using onchange_stores_and_sends [of example_page
      "\<lparr>uri = ''inmemory://model/1'', model_value = ''IF a THEN b'', languageId = ''ov''\<rparr>"
      "\<lparr>options = [''de'', ''en''], selectedIndex = 0, onchange = Some OnCultureChange\<rparr>"
      ChangeEvent]
  by (simp add: example_page_def)

text \<open>
  As first stated, for every change event, the claim fails: on the page whose primary
  editor has no model the callback raises a \<open>TypeError\<close> before the write; nothing is sent
  and the store keeps \<open>en\<close> under \<open>Culture\<close> although \<open>de\<close> is selected.
\<close>

theorem cultureSelectBox_onchange_without_model:
  "cultureSelectBox_onchange
      \<lparr>options = [''de'', ''en''], selectedIndex = 0, onchange = Some OnCultureChange\<rparr>
      (Some ChangeEvent) page_without_model = Threw TypeError page_without_model
   \<and> effects (state_of (cultureSelectBox_onchange
        \<lparr>options = [''de'', ''en''], selectedIndex = 0, onchange = Some OnCultureChange\<rparr>
        (Some ChangeEvent) page_without_model)) = []
   \<and> content (state_of (cultureSelectBox_onchange
        \<lparr>options = [''de'', ''en''], selectedIndex = 0, onchange = Some OnCultureChange\<rparr>
        (Some ChangeEvent) page_without_model)) Culture = ''en''"
  by (simp add: cultureSelectBox_onchange_def selected_value_def getModel_def
      page_without_model_def example_page_def)

subsection \<open>The connection provider\<close>

lemma sendLanguageConfiguration_None:
  "ovEditor s = None \<Longrightarrow> sendLanguageConfiguration s = Threw TypeError s"
  by (simp add: sendLanguageConfiguration_def getModel_def)

lemma sendLanguageConfiguration_Some:
  "ovEditor s = Some m \<Longrightarrow>
   sendLanguageConfiguration s = Returned (sendLanguage (uri m) (sendCulture (uri m) s))"
  by (simp add: sendLanguageConfiguration_def getModel_def)

lemma effects_sendCulture:
  "effects (sendCulture u s) = effects s @
     (case cultureSelectBox s of
        None \<Rightarrow> []
      | Some box \<Rightarrow> [Sent (currentConnection s) (CultureChanged (content s Culture) u)])"
  by (simp add: sendCulture_def sendNotification_def ContentManager_getValue_def Let_def
      split: option.splits)

lemma effects_sendLanguage:
  "effects (sendLanguage u s) = effects s @
     (case languageSelectBox s of
        None \<Rightarrow> []
      | Some box \<Rightarrow> [Sent (currentConnection s) (LanguageChanged (content s Language) u)])"
  by (simp add: sendLanguage_def sendNotification_def ContentManager_getValue_def Let_def
      split: option.splits)

lemma sendCulture_frame:
  "languageSelectBox (sendCulture u s) = languageSelectBox s"
  "currentConnection (sendCulture u s) = currentConnection s"
  "content (sendCulture u s) = content s"
  by (simp_all add: sendCulture_def sendNotification_def Let_def split: option.splits)

lemma sendLanguage_frame:
  "currentConnection (sendLanguage u s) = currentConnection s"
  by (simp add: sendLanguage_def sendNotification_def Let_def split: option.splits)

lemma effects_registrations:
  "effects (setClickHandler
         (addAliasesChangesListener
           (addDidChangeTextDocumentListener
             (addGeneratedCodeNotificationListener
               (addSemanticHighlightingNotificationListener s))))) =
   effects s @
     [OnNotification (currentConnection s) SemanticHighlighting,
      OnNotification (currentConnection s) GeneratedCode,
      OnDidChangeTextDocument,
      OnNotification (currentConnection s) CommentKeywordChanged]"
  by (simp add: setClickHandler_def addAliasesChangesListener_def
      addDidChangeTextDocumentListener_def addGeneratedCodeNotificationListener_def
      addSemanticHighlightingNotificationListener_def onNotification_def)

text \<open>
  Claim C7. In one run of the connection-setup callback on connection \<open>c\<close>, what the
  callback does to the connection comes in this order: the schema-changed send first, then
  the culture-changed send and then the language-changed send (each when its select box
  is on the page), and only after all of them the registrations of the listeners for the
  inbound notifications (semantic highlighting, generated code, comment keyword). No
  inbound listener is registered before the last send, so none can handle a notification
  before it. When the primary editor has no model the callback faults in the first send,
  before any send or registration.
\<close>

theorem connectionProvider_get_order:
  "(ovEditor s = Some m \<longrightarrow>
      (\<exists>s'. connectionProvider_get c s = Returned s') \<and>
      effects (state_of (connectionProvider_get c s)) =
        effects s
        @ [Sent c (SchemaChanged (getValue (schemaEditor s)) (uri m))]
        @ (case cultureSelectBox s of
             None \<Rightarrow> []
           | Some box \<Rightarrow> [Sent c (CultureChanged (content s Culture) (uri m))])
        @ (case languageSelectBox s of
             None \<Rightarrow> []
           | Some box \<Rightarrow> [Sent c (LanguageChanged (content s Language) (uri m))])
        @ [OnNotification c SemanticHighlighting,
           OnNotification c GeneratedCode,
           OnDidChangeTextDocument,
           OnNotification c CommentKeywordChanged])
   \<and> (ovEditor s = None \<longrightarrow>
      connectionProvider_get c s = Threw TypeError (s\<lparr>currentConnection := c\<rparr>))"
proof (intro conjI impI)
  assume m: "ovEditor s = Some m"
  let ?s0 = "s\<lparr>currentConnection := c\<rparr>"
  let ?s1 = "?s0\<lparr>effects := effects ?s0 @
       [Sent (currentConnection ?s0) (SchemaChanged (getValue (schemaEditor ?s0)) (uri m))]\<rparr>"
  let ?s2 = "sendLanguage (uri m) (sendCulture (uri m) ?s1)"
  let ?s3 = "setClickHandler
         (addAliasesChangesListener
           (addDidChangeTextDocumentListener
             (addGeneratedCodeNotificationListener
               (addSemanticHighlightingNotificationListener ?s2))))"
  have first_send: "sendSchemaChangedNotification ?s0 = Returned ?s1"
    using m by (intro sendSchemaChangedNotification_Some) simp
  have option_sends: "sendLanguageConfiguration ?s1 = Returned ?s2"
    using m by (intro sendLanguageConfiguration_Some) simp
  have run: "connectionProvider_get c s = Returned ?s3"
    unfolding connectionProvider_get_def first_send and_then.simps option_sends ..
  show "\<exists>s'. connectionProvider_get c s = Returned s'"
    using run by blast
  have "effects ?s3 = effects ?s2 @
     [OnNotification c SemanticHighlighting, OnNotification c GeneratedCode,
      OnDidChangeTextDocument, OnNotification c CommentKeywordChanged]"
    by (simp add: effects_registrations sendLanguage_frame sendCulture_frame)
  moreover have "effects ?s2 = effects s
        @ [Sent c (SchemaChanged (getValue (schemaEditor s)) (uri m))]
        @ (case cultureSelectBox s of
             None \<Rightarrow> []
           | Some box \<Rightarrow> [Sent c (CultureChanged (content s Culture) (uri m))])
        @ (case languageSelectBox s of
             None \<Rightarrow> []
           | Some box \<Rightarrow> [Sent c (LanguageChanged (content s Language) (uri m))])"
    by (simp add: effects_sendLanguage effects_sendCulture sendCulture_frame
        split: option.splits)
  ultimately show "effects (state_of (connectionProvider_get c s)) =
        effects s
        @ [Sent c (SchemaChanged (getValue (schemaEditor s)) (uri m))]
        @ (case cultureSelectBox s of
             None \<Rightarrow> []
           | Some box \<Rightarrow> [Sent c (CultureChanged (content s Culture) (uri m))])
        @ (case languageSelectBox s of
             None \<Rightarrow> []
           | Some box \<Rightarrow> [Sent c (LanguageChanged (content s Language) (uri m))])
        @ [OnNotification c SemanticHighlighting,
           OnNotification c GeneratedCode,
           OnDidChangeTextDocument,
           OnNotification c CommentKeywordChanged]"
    by (simp add: run)
next
  assume "ovEditor s = None"
  then show "connectionProvider_get c s = Threw TypeError (s\<lparr>currentConnection := c\<rparr>)"
    by (simp add: connectionProvider_get_def sendSchemaChangedNotification_None)
qed

theorem connectionProvider_get_order_witness:
  "effects (state_of (connectionProvider_get 2 example_page)) =
     [Sent 2 (SchemaChanged ''a: 1'' ''inmemory://model/1''),
      Sent 2 (CultureChanged ''en'' ''inmemory://model/1''),
      Sent 2 (LanguageChanged ''Java'' ''inmemory://model/1''),
      OnNotification 2 SemanticHighlighting,
      OnNotification 2 GeneratedCode,
      OnDidChangeTextDocument,
      OnNotification 2 CommentKeywordChanged]
   \<and> effects (state_of (connectionProvider_get 2 page_without_model)) = []"
  using connectionProvider_get_order [of example_page
      "\<lparr>uri = ''inmemory://model/1'', model_value = ''IF a THEN b'', languageId = ''ov''\<rparr>" 2]
    connectionProvider_get_order [of page_without_model
      "\<lparr>uri = ''inmemory://model/1'', model_value = ''IF a THEN b'', languageId = ''ov''\<rparr>" 2]
  by (simp add: example_page_def page_without_model_def getValue_def)

subsection \<open>The comment keyword\<close>

lemma merge_lineComment:
  "merge_configuration old
     \<lparr>lineComment = Some params, blockComment = None, brackets = None,
      autoClosingPairs = None, surroundingPairs = None, wordPattern = None\<rparr>
   = old\<lparr>lineComment := Some params\<rparr>"
  by (simp add: merge_configuration_def)

text \<open>
  Claim C8. For every comment-keyword-changed notification with the string \<open>params\<close>,
  the handler makes \<open>params\<close> the line-comment marker of the configuration of \<open>ov\<close> and
  leaves every other part of that configuration, the configuration of every other
  language and the rest of the state as they were.
\<close>

theorem commentKeywordChanged_lineComment:
  "commentKeywordChanged_handler params s =
     Returned (s\<lparr>languageConfigurations := (languageConfigurations s)(''ov'' \<mapsto>
       (case languageConfigurations s ''ov'' of
          None \<Rightarrow> \<lparr>lineComment = Some params, blockComment = None, brackets = None,
                    autoClosingPairs = None, surroundingPairs = None, wordPattern = None\<rparr>
        | Some old \<Rightarrow> old\<lparr>lineComment := Some params\<rparr>))\<rparr>)"
  by (simp add: commentKeywordChanged_handler_def setLanguageConfiguration_def merge_lineComment
      split: option.splits)

theorem commentKeywordChanged_lineComment_witness:
  "languageConfigurations
     (state_of (commentKeywordChanged_handler ''KOMMENTAR'' page_with_configuration)) ''ov''
     = Some \<lparr>lineComment = Some ''KOMMENTAR'', blockComment = Some (''/*'', ''*/''),
           brackets = Some [(''('', '')'')], autoClosingPairs = Some [(''('', '')'')],
           surroundingPairs = None, wordPattern = None\<rparr>
   \<and> languageConfigurations
     (state_of (commentKeywordChanged_handler ''KOMMENTAR'' page_with_configuration)) ''yaml''
     = languageConfigurations page_with_configuration ''yaml''"
  using commentKeywordChanged_lineComment [of "''KOMMENTAR''" page_with_configuration]
  by (simp add: page_with_configuration_def)

subsection \<open>The unguarded model\<close>

text \<open>
  Claim C10. Every outbound send reads the URI of the primary document from the primary
  editor's model without a guard. When the primary editor has no model, each of them
  faults with a \<open>TypeError\<close> and leaves the state as it found it, with nothing sent and
  nothing written: the schema send, the option send, the two \<open>onchange\<close> callbacks, the
  document-change listener on a \<open>yaml\<close> document, and the connection-setup callback,
  which has only set the current connection. The absence of the select boxes is
  guarded: with a model and without the boxes the option send returns and sends nothing.
\<close>

theorem senders_fault_without_model:
  "ovEditor s = None \<Longrightarrow>
     sendSchemaChangedNotification s = Threw TypeError s
   \<and> sendLanguageConfiguration s = Threw TypeError s
   \<and> cultureSelectBox_onchange box (Some e) s = Threw TypeError s
   \<and> languageSelectBox_onchange box (Some e) s = Threw TypeError s
   \<and> (document_languageId d = ''yaml'' \<longrightarrow> didChangeTextDocument_handler d s = Threw TypeError s)
   \<and> connectionProvider_get c s = Threw TypeError (s\<lparr>currentConnection := c\<rparr>)
   \<and> (ovEditor s' = Some m \<and> cultureSelectBox s' = None \<and> languageSelectBox s' = None \<longrightarrow>
        sendLanguageConfiguration s' = Returned s' \<and> setClickHandler s' = s')"
  by (simp add: sendSchemaChangedNotification_None sendLanguageConfiguration_None
      cultureSelectBox_onchange_def languageSelectBox_onchange_def getModel_def
      didChangeTextDocument_handler_def connectionProvider_get_def
      sendLanguageConfiguration_def sendCulture_def sendLanguage_def setClickHandler_def Let_def
      split: option.splits)

theorem senders_fault_without_model_witness:
  "sendSchemaChangedNotification page_without_model = Threw TypeError page_without_model
   \<and> sendLanguageConfiguration page_without_model = Threw TypeError page_without_model
   \<and> cultureSelectBox_onchange
       \<lparr>options = [''de'', ''en''], selectedIndex = 1, onchange = Some OnCultureChange\<rparr>
       (Some ChangeEvent) page_without_model = Threw TypeError page_without_model
   \<and> languageSelectBox_onchange
       \<lparr>options = [''de'', ''en''], selectedIndex = 1, onchange = Some OnCultureChange\<rparr>
       (Some ChangeEvent) page_without_model = Threw TypeError page_without_model
   \<and> didChangeTextDocument_handler \<lparr>document_languageId = ''yaml'', getText = ''a: 3''\<rparr>
       page_without_model = Threw TypeError page_without_model
   \<and> connectionProvider_get 2 page_without_model =
       Threw TypeError (page_without_model\<lparr>currentConnection := 2\<rparr>)
   \<and> sendLanguageConfiguration page_without_select_boxes = Returned page_without_select_boxes"
  using senders_fault_without_model [of page_without_model
      "\<lparr>options = [''de'', ''en''], selectedIndex = 1, onchange = Some OnCultureChange\<rparr>"
      ChangeEvent "\<lparr>document_languageId = ''yaml'', getText = ''a: 3''\<rparr>" 2
      page_without_select_boxes
      "\<lparr>uri = ''inmemory://model/1'', model_value = ''IF a THEN b'', languageId = ''ov''\<rparr>"]
  by (simp add: page_without_model_def page_without_select_boxes_def example_page_def)

end
